theory Spec2Isabelle
  imports Complex_Main "HOL-Library.AList" "HOL-Library.Sublist"
    "HOL-Library.Char_ord" "HOL-Library.List_Lexorder"
begin

section \<open>Common ground: exceptions, dictionaries, paths\<close>

text \<open>
  Every Python exception that the modelled code can raise is a value of \<open>error\<close>;
  a function that may raise returns \<open>error + 'a\<close>, with \<open>Inl\<close> for the exception.
  \<open>SystemExit\<close> carries the message handed to \<open>sys.exit\<close>.
\<close>

datatype error =
    ValueError
  | IndexError
  | KeyError
  | FileNotFoundError
  | StopIteration
  | UnboundLocalError
  | CalledProcessError
  | AttributeError
  | TypeError
  | SystemExit string

definition bind :: "error + 'a \<Rightarrow> ('a \<Rightarrow> error + 'b) \<Rightarrow> error + 'b" where
  "bind m f = (case m of Inl e \<Rightarrow> Inl e | Inr x \<Rightarrow> f x)"

text \<open>A \<open>for\<close> loop whose body may raise: the first exception ends the loop.\<close>

fun for_each :: "('a \<Rightarrow> 's \<Rightarrow> error + 's) \<Rightarrow> 'a list \<Rightarrow> 's \<Rightarrow> error + 's" where
  "for_each body [] s = Inr s"
| "for_each body (x # xs) s =
     (case body x s of Inl e \<Rightarrow> Inl e | Inr s' \<Rightarrow> for_each body xs s')"

text \<open>
  A Python \<open>dict\<close> keeps insertion order, so it is an association list:
  \<open>d[k] = v\<close> is \<open>AList.update k v d\<close> (in place when the key is there, appended
  otherwise), \<open>k in d\<close> is \<open>has_key d k\<close>.
\<close>

definition has_key :: "('k \<times> 'v) list \<Rightarrow> 'k \<Rightarrow> bool" where
  "has_key d k = (map_of d k \<noteq> None)"

text \<open>
  Paths are strings. \<open>path_join\<close> is the \<open>/\<close> operator of \<open>pathlib\<close> and
  \<open>os.path.join\<close> on two segments: an absolute right operand replaces the left one.
\<close>

definition path_join :: "string \<Rightarrow> string \<Rightarrow> string" where
  "path_join d n = (if n \<noteq> [] \<and> hd n = CHR ''/'' then n else d @ ''/'' @ n)"

section \<open>File resolver of \<open>04_zarr.py\<close>\<close>




subsection \<open>The resolver of \<open>old_code/04_zarr.py\<close>\<close>


text \<open>\<open>s.replace(old, new)\<close> for a non-empty \<open>old\<close>: leftmost, non-overlapping.\<close>

function replace :: "string \<Rightarrow> string \<Rightarrow> string \<Rightarrow> string" where
  "replace s old new =
     (if s = [] \<or> old = [] then s
      else if take (length old) s = old then new @ replace (drop (length old) s) old new
      else hd s # replace (tl s) old new)"
  by pat_completeness auto
termination
  by (relation "measure (\<lambda>(s, old, new). length s)") (auto simp: neq_Nil_conv)

declare replace.simps [simp del]





section \<open>Cycle pairing in \<open>04_zarr.py\<close>\<close>










section \<open>Cycle pairing in \<open>06_nc_zarr.py\<close>\<close>



section \<open>\<open>gdas_utility_fixed.py\<close>: datasets\<close>

text \<open>
  An \<open>xarray\<close> dataset: its dimension names, its coordinates and its data variables,
  both dictionaries from a name to an array. An array is its dimension names and its
  values, flattened; values are real numbers (the rounding of floating point and the
  casts \<open>astype('float32')\<close>, \<open>astype('int32')\<close> are not modelled). Time values are
  hours.
\<close>

record variable =
  var_dims :: "string list"
  var_values :: "real list"

record dataset =
  ds_dims :: "string list"
  ds_coords :: "(string \<times> variable) list"
  ds_data_vars :: "(string \<times> variable) list"

text \<open>\<open>ds[k]\<close> and \<open>ds[k] = v\<close>.\<close>

definition getitem :: "dataset \<Rightarrow> string \<Rightarrow> error + variable" where
  "getitem ds k =
     (case map_of (ds_data_vars ds) k of
        Some v \<Rightarrow> Inr v
      | None \<Rightarrow> (case map_of (ds_coords ds) k of Some v \<Rightarrow> Inr v | None \<Rightarrow> Inl KeyError))"

text \<open>The attribute access \<open>ds.k\<close>.\<close>

definition getattr :: "dataset \<Rightarrow> string \<Rightarrow> error + variable" where
  "getattr ds k = (case getitem ds k of Inl _ \<Rightarrow> Inl AttributeError | Inr v \<Rightarrow> Inr v)"

definition setitem :: "dataset \<Rightarrow> string \<Rightarrow> variable \<Rightarrow> dataset" where
  "setitem ds k v =
     (if has_key (ds_data_vars ds) k then ds\<lparr>ds_data_vars := AList.update k v (ds_data_vars ds)\<rparr>
      else if has_key (ds_coords ds) k then ds\<lparr>ds_coords := AList.update k v (ds_coords ds)\<rparr>
      else ds\<lparr>ds_data_vars := AList.update k v (ds_data_vars ds)\<rparr>)"

text \<open>\<open>ds.drop_dims(d)\<close>: the dimension and every array that uses it go.\<close>

definition drop_dims :: "string \<Rightarrow> dataset \<Rightarrow> error + dataset" where
  "drop_dims d ds =
     (if d \<notin> set (ds_dims ds) then Inl ValueError
      else Inr \<lparr>ds_dims = removeAll d (ds_dims ds),
                 ds_coords = filter (\<lambda>(n, v). d \<notin> set (var_dims v)) (ds_coords ds),
                 ds_data_vars = filter (\<lambda>(n, v). d \<notin> set (var_dims v)) (ds_data_vars ds)\<rparr>)"

text \<open>
  \<open>ds.rename(name_dict)\<close>: every key must name a variable, a coordinate or a
  dimension of the dataset, and two arrays must not end with one name.
\<close>

definition renamed :: "(string \<times> string) list \<Rightarrow> string \<Rightarrow> string" where
  "renamed name_dict k = (case map_of name_dict k of None \<Rightarrow> k | Some k' \<Rightarrow> k')"

definition rename_array :: "(string \<times> string) list \<Rightarrow> string \<times> variable \<Rightarrow> string \<times> variable" where
  "rename_array name_dict nv =
     (renamed name_dict (fst nv), (snd nv)\<lparr>var_dims := map (renamed name_dict) (var_dims (snd nv))\<rparr>)"

definition rename :: "(string \<times> string) list \<Rightarrow> dataset \<Rightarrow> error + dataset" where
  "rename name_dict ds =
     (let names = map fst (ds_coords ds) @ map fst (ds_data_vars ds)
      in if \<not> list_all (\<lambda>k. k \<in> set names \<or> k \<in> set (ds_dims ds)) (map fst name_dict)
         then Inl ValueError
         else if \<not> distinct (map (renamed name_dict) names) then Inl ValueError
         else Inr \<lparr>ds_dims = map (renamed name_dict) (ds_dims ds),
                    ds_coords = map (rename_array name_dict) (ds_coords ds),
                    ds_data_vars = map (rename_array name_dict) (ds_data_vars ds)\<rparr>)"

text \<open>\<open>ds.assign_coords(datetime=ds.time)\<close>.\<close>

definition assign_coords :: "string \<Rightarrow> variable \<Rightarrow> dataset \<Rightarrow> dataset" where
  "assign_coords k v ds = ds\<lparr>ds_coords := AList.update k v (ds_coords ds)\<rparr>"

text \<open>\<open>ds[k] = ds[k].astype(...)\<close>: the array must be there; its values stay.\<close>

definition astype :: "string \<Rightarrow> dataset \<Rightarrow> error + dataset" where
  "astype k ds = bind (getitem ds k) (\<lambda>v. Inr (setitem ds k v))"

text \<open>\<open>ds['time'] = ds['time'] - ds.time[0]\<close>.\<close>

definition adjust_time :: "dataset \<Rightarrow> error + dataset" where
  "adjust_time ds =
     bind (getitem ds ''time'') (\<lambda>t.
       case var_values t of
         [] \<Rightarrow> Inl IndexError
       | t0 # _ \<Rightarrow> Inr (setitem ds ''time'' (t\<lparr>var_values := map (\<lambda>x. x - t0) (var_values t)\<rparr>)))"

text \<open>
  \<open>ds.expand_dims(dim='batch')\<close> puts the new dimension in front of every data
  variable; \<open>da.expand_dims\<close> and \<open>da.squeeze\<close> do so on one array.
\<close>

definition expand_array :: "string \<Rightarrow> variable \<Rightarrow> error + variable" where
  "expand_array d v =
     (if d \<in> set (var_dims v) then Inl ValueError else Inr (v\<lparr>var_dims := d # var_dims v\<rparr>))"

definition expand_dims :: "string \<Rightarrow> dataset \<Rightarrow> error + dataset" where
  "expand_dims d ds =
     (if d \<in> set (ds_dims ds) \<or> has_key (ds_coords ds) d \<or> has_key (ds_data_vars ds) d
      then Inl ValueError
      else Inr (ds\<lparr>ds_dims := d # ds_dims ds,
                     ds_data_vars := map (\<lambda>(n, v). (n, v\<lparr>var_dims := d # var_dims v\<rparr>)) (ds_data_vars ds)\<rparr>))"

definition squeeze :: "string \<Rightarrow> variable \<Rightarrow> error + variable" where
  "squeeze d v =
     (if d \<notin> set (var_dims v) then Inl ValueError
      else Inr (v\<lparr>var_dims := removeAll d (var_dims v)\<rparr>))"

text \<open>\<open>ds[k] = ds[k] * c\<close> and \<open>ds[k] = ds[k] / c\<close>.\<close>

definition times_const :: "string \<Rightarrow> real \<Rightarrow> dataset \<Rightarrow> error + dataset" where
  "times_const k c ds =
     bind (getitem ds k) (\<lambda>v. Inr (setitem ds k (v\<lparr>var_values := map (\<lambda>x. x * c) (var_values v)\<rparr>)))"

definition divide_const :: "string \<Rightarrow> real \<Rightarrow> dataset \<Rightarrow> error + dataset" where
  "divide_const k c ds =
     bind (getitem ds k) (\<lambda>v. Inr (setitem ds k (v\<lparr>var_values := map (\<lambda>x. x / c) (var_values v)\<rparr>)))"

subsection \<open>Harmonization in the \<open>wgrib2\<close> path\<close>

definition name_dict :: "(string \<times> string) list" where
  "name_dict =
     [(''latitude'', ''lat''),
      (''longitude'', ''lon''),
      (''plevel'', ''level''),
      (''HGT_surface'', ''geopotential_at_surface''),
      (''LAND_surface'', ''land_sea_mask''),
      (''PRMSL_meansealevel'', ''mean_sea_level_pressure''),
      (''TMP_2maboveground'', ''2m_temperature''),
      (''UGRD_10maboveground'', ''10m_u_component_of_wind''),
      (''VGRD_10maboveground'', ''10m_v_component_of_wind''),
      (''APCP_surface'', ''total_precipitation_6hr''),
      (''HGT'', ''geopotential''),
      (''TMP'', ''temperature''),
      (''SPFH'', ''specific_humidity''),
      (''VVEL'', ''vertical_velocity''),
      (''UGRD'', ''u_component_of_wind''),
      (''VGRD'', ''v_component_of_wind'')]"

text \<open>
  The statements of \<open>process_data_with_wgrib2\<close> between the merge and the unit
  conversions (\<open>drop_dims\<close> to the two \<open>squeeze\<close>), in their order.
\<close>

definition squeeze_batch :: "string \<Rightarrow> dataset \<Rightarrow> error + dataset" where
  "squeeze_batch k ds =
     bind (getitem ds k) (\<lambda>v. bind (squeeze ''batch'' v) (\<lambda>v. Inr (setitem ds k v)))"

definition prepare :: "dataset \<Rightarrow> error + dataset" where
  "prepare ds =
     bind (drop_dims ''level'' ds) (\<lambda>ds.
     bind (rename name_dict ds) (\<lambda>ds.
     bind (getattr ds ''time'') (\<lambda>t.
     bind (Inr (assign_coords ''datetime'' t ds)) (\<lambda>ds.
     bind (astype ''lat'' ds) (\<lambda>ds.
     bind (astype ''lon'' ds) (\<lambda>ds.
     bind (astype ''level'' ds) (\<lambda>ds.
     bind (adjust_time ds) (\<lambda>ds.
     bind (expand_dims ''batch'' ds) (\<lambda>ds.
     bind (getitem ds ''datetime'') (\<lambda>dt.
     bind (expand_array ''batch'' dt) (\<lambda>dt.
     bind (Inr (setitem ds ''datetime'' dt)) (\<lambda>ds.
     bind (squeeze_batch ''geopotential_at_surface'' ds) (\<lambda>ds.
     squeeze_batch ''land_sea_mask'' ds)))))))))))))"

text \<open>The unit conversions that follow (the last three assignments).\<close>

definition convert_units :: "dataset \<Rightarrow> error + dataset" where
  "convert_units ds =
     bind (times_const ''geopotential_at_surface'' 9.80665 ds) (\<lambda>ds.
     bind (times_const ''geopotential'' 9.80665 ds) (\<lambda>ds.
     divide_const ''total_precipitation_6hr'' 1000 ds))"

definition harmonize :: "dataset \<Rightarrow> error + dataset" where
  "harmonize ds = bind (prepare ds) convert_units"

subsection \<open>The extraction table of the \<open>wgrib2\<close> path\<close>

text \<open>
  An entry of \<open>variables_to_extract\<close>: the level selectors and the optional key
  \<open>first_time_step_only\<close> (\<open>None\<close> when the key is absent).
\<close>

record spec =
  levels :: "string list"
  first_time_step_only :: "bool option"

type_synonym spec_table = "(string \<times> (string \<times> spec) list) list"

definition first_bucket :: "string list" where
  "first_bucket = [''f000'', ''f001'', ''f002'', ''f003'', ''f004'', ''f005'']"

definition second_bucket :: "string list" where
  "second_bucket = [''f006'', ''f007'', ''f008'', ''f009'', ''f010'', ''f011'']"

definition pressure_variables :: string where
  "pressure_variables = '':SPFH|VVEL|VGRD|UGRD|HGT|TMP:''"

definition first_bucket_entry :: "(string \<times> spec) list" where
  "first_bucket_entry =
     [('':HGT:'', \<lparr>levels = ['':surface:''], first_time_step_only = Some True\<rparr>),
      ('':TMP:'', \<lparr>levels = ['':2 m above ground:''], first_time_step_only = None\<rparr>),
      ('':PRMSL:'', \<lparr>levels = ['':mean sea level:''], first_time_step_only = None\<rparr>),
      ('':VGRD|UGRD:'', \<lparr>levels = ['':10 m above ground:''], first_time_step_only = None\<rparr>),
      (pressure_variables,
         \<lparr>levels = ['':(50|100|150|200|250|300|400|500|600|700|850|925|1000) mb:''],
          first_time_step_only = None\<rparr>)]"

definition second_bucket_entry :: "(string \<times> spec) list" where
  "second_bucket_entry =
     [('':LAND:'', \<lparr>levels = ['':surface:''], first_time_step_only = Some True\<rparr>),
      (''^(597):'', \<lparr>levels = ['':surface:''], first_time_step_only = None\<rparr>)]"

definition levels_37 :: "string list" where
  "levels_37 = ['':(1|2|3|5|7|10|20|30|50|70|100|150|200|250|300|350|400|450|500|550|600|650|700|750|800|850|900|925|950|975|1000) mb:'']"

definition levels_b :: "string list" where
  "levels_b = ['':(125|175|225|775|825|875) mb:'']"

text \<open>The first loop over \<open>forecast_hours\<close>.\<close>

fun add_buckets :: "string list \<Rightarrow> spec_table \<Rightarrow> spec_table" where
  "add_buckets [] t = t"
| "add_buckets (fh # fhs) t =
     add_buckets fhs
       (if fh \<in> set first_bucket then AList.update (''.pgrb2.0p25.'' @ fh) first_bucket_entry t
        else if fh \<in> set second_bucket then AList.update (''.pgrb2.0p25.'' @ fh) second_bucket_entry t
        else t)"

text \<open>
  The loop run when \<open>num_levels == 37\<close>. The entry whose \<open>levels\<close> it replaces was
  stored by the first loop for the same forecast hour.
\<close>

fun add_37_levels :: "string list \<Rightarrow> spec_table \<Rightarrow> spec_table" where
  "add_37_levels [] t = t"
| "add_37_levels (fh # fhs) t =
     add_37_levels fhs
       (if fh \<in> set first_bucket then
          (let t = AList.map_entry (''.pgrb2.0p25.'' @ fh)
                     (AList.map_entry pressure_variables (\<lambda>d. d\<lparr>levels := levels_37\<rparr>)) t;
               t = AList.update (''.pgrb2b.0p25.'' @ fh) [] t;
               t = AList.update (''.pgrb2b.0p25.'' @ fh)
                     [(pressure_variables, \<lparr>levels = levels_b, first_time_step_only = None\<rparr>)] t
           in t)
        else t)"

definition variables_to_extract :: "nat \<Rightarrow> string list \<Rightarrow> spec_table" where
  "variables_to_extract n_levels forecast_hours =
     (let t = add_buckets forecast_hours []
      in if n_levels = 37 then add_37_levels forecast_hours t else t)"

subsection \<open>Strings built by the driver\<close>

text \<open>\<open>str(n)\<close>, \<open>f"{n:03d}"\<close>, \<open>sep.join(xs)\<close> and \<open>re.findall(r'\d+', s)\<close>.\<close>

fun string_of_nat :: "nat \<Rightarrow> string" where
  "string_of_nat n =
     (if n < 10 then [char_of (48 + n)]
      else string_of_nat (n div 10) @ [char_of (48 + n mod 10)])"

declare string_of_nat.simps [simp del]

definition pad3 :: "nat \<Rightarrow> string" where
  "pad3 n = (let s = string_of_nat n in replicate (3 - length s) CHR ''0'' @ s)"

fun join :: "string \<Rightarrow> string list \<Rightarrow> string" where
  "join sep [] = []"
| "join sep [x] = x"
| "join sep (x # y # ys) = x @ sep @ join sep (y # ys)"

definition is_digit :: "char \<Rightarrow> bool" where
  "is_digit c = (c \<in> set ''0123456789'')"

fun findall_digits :: "string \<Rightarrow> string \<Rightarrow> string list" where
  "findall_digits [] run = (if run = [] then [] else [run])"
| "findall_digits (c # cs) run =
     (if is_digit c then findall_digits cs (run @ [c])
      else (if run = [] then [] else [run]) @ findall_digits cs [])"

subsection \<open>The extraction loop of the \<open>wgrib2\<close> path\<close>

text \<open>
  The file system as the driver sees it: \<open>walk_dirs d\<close> is
  \<open>next(os.walk(d))[1]\<close>, \<open>None\<close> when \<open>d\<close> is no directory (the generator is
  empty and \<open>next\<close> raises \<open>StopIteration\<close>); \<open>path_exists\<close> is \<open>os.path.exists\<close> and
  \<open>glob\<close> is \<open>glob.glob\<close>.
\<close>

record world =
  walk_dirs :: "string \<Rightarrow> string list option"
  path_exists :: "string \<Rightarrow> bool"
  glob :: "string \<Rightarrow> string list"

definition inside :: "string \<Rightarrow> string \<Rightarrow> bool" where
  "inside d p = (p = d \<or> prefix (d @ ''/'') p)"

definition rmtree :: "string \<Rightarrow> world \<Rightarrow> world" where
  "rmtree d W =
     \<lparr>walk_dirs = (\<lambda>p. if inside d p then None else walk_dirs W p),
      path_exists = (\<lambda>p. if inside d p then False else path_exists W p),
      glob = (\<lambda>pattern. filter (\<lambda>f. \<not> inside d f) (glob W pattern))\<rparr>"

text \<open>
  What the driver calls and the model does not define: \<open>run_wgrib2 cmd\<close> is
  \<open>subprocess.run(cmd, check=True)\<close> followed by \<open>xr.open_dataset\<close> on the output
  file of the command; \<open>isel_time0\<close> is \<open>ds.isel(time=0)\<close>; \<open>combine_by_coords\<close>
  is \<open>xr.combine_by_coords(..., combine_attrs="drop_conflicts", join="outer")\<close>;
  \<open>strftime\<close> formats an hour count with \<open>'%Y%m%d%H'\<close>; \<open>getcwd\<close> is \<open>os.getcwd()\<close>.
\<close>

record tools =
  run_wgrib2 :: "string list \<Rightarrow> error + dataset"
  isel_time0 :: "dataset \<Rightarrow> error + dataset"
  combine_by_coords :: "dataset list \<Rightarrow> error + dataset"
  strftime :: "int \<Rightarrow> string"
  getcwd :: string

text \<open>The fields of \<open>GFSDataProcessor\<close> that the processing reads or writes.\<close>

record processor =
  start_datetime :: int
  num_levels :: nat
  output_directory :: "string option"
  local_base_directory :: string
  keep_downloaded_data :: bool

text \<open>
  The variables the loop updates: the table (the flag is cleared in it), the local
  \<open>grib2_file\<close> (\<open>None\<close> while it is unbound), \<open>extracted_datasets\<close>, \<open>files\<close>, and
  the \<open>wgrib2\<close> commands that were run.
\<close>

record loop_state =
  st_table :: spec_table
  st_grib2_file :: "string option"
  st_extracted :: "dataset list"
  st_files :: "string list"
  st_commands :: "string list list"

definition clear_flag :: "string \<Rightarrow> string \<Rightarrow> spec_table \<Rightarrow> spec_table" where
  "clear_flag file_extension v t =
     AList.map_entry file_extension
       (AList.map_entry v (\<lambda>d. d\<lparr>first_time_step_only := Some False\<rparr>)) t"

text \<open>The body of \<open>for level in levels\<close>.\<close>

definition extract_level ::
  "tools \<Rightarrow> processor \<Rightarrow> string \<Rightarrow> string \<Rightarrow> string \<Rightarrow> string \<Rightarrow> bool \<Rightarrow> string \<Rightarrow>
   loop_state \<Rightarrow> error + loop_state" where
  "extract_level T self date_folder hour file_extension v flag level st =
     (let output_file = v @ ''_'' @ level @ ''_'' @ date_folder @ ''_'' @ hour @ file_extension
                          @ ''_'' @ string_of_nat (num_levels self) @ ''.nc'';
          st = st\<lparr>st_files := st_files st @ [output_file]\<rparr>;
          matches = findall_digits level [];
          number_of_levels = length matches
      in case st_grib2_file st of
           None \<Rightarrow> Inl UnboundLocalError
         | Some grib2_file \<Rightarrow>
             (let wgrib2_command = [''wgrib2'', ''-nc_nlev'', string_of_nat number_of_levels,
                                    grib2_file, ''-match'', v, ''-match'', level,
                                    ''-netcdf'', output_file]
              in bind (run_wgrib2 T wgrib2_command) (\<lambda>ds.
                   let st = st\<lparr>st_commands := st_commands st @ [wgrib2_command]\<rparr>
                   in if v \<notin> set ['':LAND:'', '':HGT:''] then
                        Inr (st\<lparr>st_extracted := st_extracted st @ [ds]\<rparr>)
                      else if flag then
                        bind (isel_time0 T ds) (\<lambda>ds.
                          Inr (st\<lparr>st_extracted := st_extracted st @ [ds],
                                   st_table := clear_flag file_extension v (st_table st)\<rparr>))
                      else Inr st)))"

text \<open>The body of \<open>for variable, data in variable_data.items()\<close>.\<close>

definition extract_variable ::
  "tools \<Rightarrow> world \<Rightarrow> processor \<Rightarrow> string \<Rightarrow> string \<Rightarrow> string \<Rightarrow> string \<Rightarrow> string \<Rightarrow>
   loop_state \<Rightarrow> error + loop_state" where
  "extract_variable T W self subfolder_path date_folder hour file_extension v st =
     (case map_of (st_table st) file_extension of
        None \<Rightarrow> Inl KeyError
      | Some variable_data \<Rightarrow>
     (case map_of variable_data v of
        None \<Rightarrow> Inl KeyError
      | Some data \<Rightarrow>
         (let flag = (case first_time_step_only data of None \<Rightarrow> False | Some b \<Rightarrow> b);
              pattern = path_join subfolder_path (''gdas.t*z'' @ file_extension);
              matching_files = glob W pattern;
              st = (if length matching_files = 1
                    then st\<lparr>st_grib2_file := Some (hd matching_files)\<rparr> else st)
          in for_each (extract_level T self date_folder hour file_extension v flag)
               (levels data) st)))"

text \<open>The body of \<open>for file_extension, variable_data in variables_to_extract.items()\<close>.\<close>

definition extract_extension ::
  "tools \<Rightarrow> world \<Rightarrow> processor \<Rightarrow> string \<Rightarrow> string \<Rightarrow> string \<Rightarrow> string \<Rightarrow>
   loop_state \<Rightarrow> error + loop_state" where
  "extract_extension T W self subfolder_path date_folder hour file_extension st =
     (case map_of (st_table st) file_extension of
        None \<Rightarrow> Inl KeyError
      | Some variable_data \<Rightarrow>
          for_each (extract_variable T W self subfolder_path date_folder hour file_extension)
            (map fst variable_data) st)"

text \<open>The body of \<open>for hour in ['00', '06', '12', '18']\<close>.\<close>

definition extract_hour ::
  "tools \<Rightarrow> world \<Rightarrow> processor \<Rightarrow> string \<Rightarrow> string \<Rightarrow> string \<Rightarrow> loop_state \<Rightarrow> error + loop_state" where
  "extract_hour T W self date_folder_path date_folder hour st =
     (let subfolder_path = path_join date_folder_path hour
      in if path_exists W subfolder_path then
           for_each (extract_extension T W self subfolder_path date_folder hour)
             (map fst (st_table st)) st
         else Inr st)"

text \<open>The body of \<open>for date_folder in date_folders\<close>.\<close>

definition extract_date_folder ::
  "tools \<Rightarrow> world \<Rightarrow> processor \<Rightarrow> string \<Rightarrow> string \<Rightarrow> loop_state \<Rightarrow> error + loop_state" where
  "extract_date_folder T W self data_directory date_folder st =
     (let date_folder_path = path_join data_directory date_folder
      in for_each (extract_hour T W self date_folder_path date_folder)
           [''00'', ''06'', ''12'', ''18''] st)"

subsection \<open>\<open>process_data_with_wgrib2\<close> and the forecast-pair scheduler\<close>

definition remove_downloaded_data :: "processor \<Rightarrow> world \<Rightarrow> world" where
  "remove_downloaded_data self W =
     (if path_exists W (local_base_directory self) then rmtree (local_base_directory self) W
      else W)"

text \<open>
  A finished job: the path of the NetCDF file it wrote and the dataset written
  there, with the processor (its \<open>output_directory\<close> may have been set) and the
  file system after the job.
\<close>

record job_result =
  output_netcdf :: string
  written :: dataset
  self_after :: processor
  world_after :: world

text \<open>The loop nest of \<open>process_data_with_wgrib2\<close>, from \<open>os.walk\<close> on.\<close>

definition extraction_loop ::
  "tools \<Rightarrow> processor \<Rightarrow> world \<Rightarrow> string list \<Rightarrow> error + loop_state" where
  "extraction_loop T self W forecast_hours =
     (let data_directory = local_base_directory self;
          st = \<lparr>st_table = variables_to_extract (num_levels self) forecast_hours,
                st_grib2_file = None, st_extracted = [], st_files = [], st_commands = []\<rparr>
      in case walk_dirs W data_directory of
           None \<Rightarrow> Inl StopIteration
         | Some dirnames \<Rightarrow>
             (let date_folders = sort dirnames
              in for_each (extract_date_folder T W self data_directory) date_folders st))"

text \<open>
  The end of both processing functions, from \<open>date = ...\<close> to the removal of the
  downloaded data: the output path is built, the dataset \<open>ds\<close> is written there,
  and the download directory is removed unless it is to be kept. The \<open>wgrib2\<close> path
  adds the forecast hours to the file name (its test \<open>forecast_hours is None\<close> is
  never true there, the name having been rebound at the top of the function);
  \<open>t\<close> is \<open>ds['time']\<close>. The intermediate NetCDF files and their removal are not
  modelled.
\<close>

definition save_netcdf ::
  "(int \<Rightarrow> string) \<Rightarrow> string \<Rightarrow> processor \<Rightarrow> world \<Rightarrow> string \<Rightarrow> dataset \<Rightarrow> variable \<Rightarrow> job_result" where
  "save_netcdf format_date cwd self W fh_suffix ds t =
     (let date = format_date (start_datetime self + 6);
          steps = string_of_nat (length (var_values t));
          out_dir = (case output_directory self of None \<Rightarrow> cwd | Some d \<Rightarrow> d);
          self = self\<lparr>output_directory := Some out_dir\<rparr>;
          output_netcdf = path_join out_dir
            (''source-gdas_date-'' @ date @ ''_res-0.25_levels-''
               @ string_of_nat (num_levels self) @ ''_steps-'' @ steps @ fh_suffix @ ''.nc'');
          W = (if \<not> keep_downloaded_data self then remove_downloaded_data self W else W)
      in \<lparr>output_netcdf = output_netcdf, written = ds, self_after = self, world_after = W\<rparr>)"

definition process_data_with_wgrib2 ::
  "tools \<Rightarrow> processor \<Rightarrow> world \<Rightarrow> string list option \<Rightarrow> error + job_result" where
  "process_data_with_wgrib2 T self W forecast_hours_arg =
     (let forecast_hours = (case forecast_hours_arg of None \<Rightarrow> [''f000'', ''f006''] | Some fhs \<Rightarrow> fhs)
      in bind (extraction_loop T self W forecast_hours) (\<lambda>st.
         bind (combine_by_coords T (st_extracted st)) (\<lambda>ds.
         bind (harmonize ds) (\<lambda>ds.
         bind (getitem ds ''time'') (\<lambda>t.
           Inr (save_netcdf (strftime T) (getcwd T) self W
                  (''_fh-'' @ join ''_'' forecast_hours) ds t))))))"

text \<open>
  \<open>process_forecast_pairs_with_wgrib2\<close>: the six calls, one after the other; an
  exception in one of them leaves the loop. The result lists what the calls wrote.
\<close>

definition forecast_hours_all :: "string list" where
  "forecast_hours_all = map (\<lambda>h. ''f'' @ pad3 h) [0..<12]"

definition pair_hours :: "nat \<Rightarrow> string list" where
  "pair_hours i = [forecast_hours_all ! i, forecast_hours_all ! (i + 6)]"

record pairs_state =
  ps_self :: processor
  ps_world :: world
  ps_outputs :: "(string \<times> dataset) list"

definition process_pair :: "tools \<Rightarrow> nat \<Rightarrow> pairs_state \<Rightarrow> error + pairs_state" where
  "process_pair T i ps =
     bind (process_data_with_wgrib2 T (ps_self ps) (ps_world ps) (Some (pair_hours i))) (\<lambda>r.
       Inr \<lparr>ps_self = self_after r, ps_world = world_after r,
            ps_outputs = ps_outputs ps @ [(output_netcdf r, written r)]\<rparr>)"

definition process_forecast_pairs_with_wgrib2 ::
  "tools \<Rightarrow> processor \<Rightarrow> world \<Rightarrow> error + pairs_state" where
  "process_forecast_pairs_with_wgrib2 T self W =
     for_each (process_pair T) [0..<6] \<lparr>ps_self = self, ps_world = W, ps_outputs = []\<rparr>"

section \<open>\<open>gdas_utility_fixed.py\<close>: the \<open>pygrib\<close> path\<close>

text \<open>
  A GRIB message with the keys the code reads; \<open>msg_values\<close> is the grid that
  \<open>msg.data()\<close> returns (the latitudes and longitudes it returns with it are not
  modelled). \<open>validDate\<close> is in hours.
\<close>

record gribmessage =
  shortName :: string
  typeOfLevel :: string
  msg_level :: int
  validDate :: int
  stepType :: string
  msg_values :: "real list list"

text \<open>
  The \<open>DataArray\<close> that \<open>get_dataarray\<close> builds: its name, its grid over
  \<open>lat\<close> and \<open>lon\<close>, and the scalar coordinates \<open>level\<close> (absent for the surface
  fields) and \<open>time\<close>.
\<close>

record dataarray =
  da_name :: string
  da_data :: "real list list"
  da_level :: "int option"
  da_time :: int

text \<open>
  What \<open>pygrib\<close> and \<open>xarray\<close> do and the model does not define: \<open>pygrib_open\<close>
  gives the messages of a file; \<open>msg_item0 m\<close>, \<open>msg_len m\<close> and \<open>msg_iter m\<close> are
  \<open>m[0]\<close>, \<open>len(m)\<close> and the iteration over \<open>m\<close> for a single message \<open>m\<close>;
  \<open>xr_merge_arrays\<close> is \<open>xr.merge\<close> on the extracted arrays.
\<close>

record decoder =
  pygrib_open :: "string \<Rightarrow> error + gribmessage list"
  msg_item0 :: "gribmessage \<Rightarrow> error + gribmessage"
  msg_len :: "gribmessage \<Rightarrow> error + nat"
  msg_iter :: "gribmessage \<Rightarrow> error + gribmessage list"
  xr_merge_arrays :: "dataarray list \<Rightarrow> error + dataset"
  strftime_p :: "int \<Rightarrow> string"
  getcwd_p :: string

text \<open>
  \<open>grbs.select(shortName=..., typeOfLevel=..., level=...)\<close>: the messages that
  match, in file order.
\<close>

definition select :: "gribmessage list \<Rightarrow> string \<Rightarrow> string \<Rightarrow> int \<Rightarrow> gribmessage list" where
  "select grbs var_name type_of_level level =
     filter (\<lambda>m. shortName m = var_name \<and> typeOfLevel m = type_of_level \<and> msg_level m = level) grbs"

text \<open>
  The value of \<open>data\<close>: the grid of one message, or \<open>np.array\<close> of a list of
  grids, which has three axes (one when the list is empty).
\<close>

datatype ndarray = Grid "real list list" | Stack "real list list list"

definition scale_array :: "real \<Rightarrow> ndarray \<Rightarrow> ndarray" where
  "scale_array c a =
     (case a of
        Grid g \<Rightarrow> Grid (map (map (\<lambda>x. x * c)) g)
      | Stack gs \<Rightarrow> Stack (map (map (map (\<lambda>x. x * c))) gs))"

text \<open>\<open>xr.DataArray(data, dims=['lat', 'lon'], ...)\<close> wants two axes.\<close>

definition make_dataarray :: "ndarray \<Rightarrow> string \<Rightarrow> int option \<Rightarrow> int \<Rightarrow> error + dataarray" where
  "make_dataarray data name level steps =
     (case data of
        Grid g \<Rightarrow> Inr \<lparr>da_name = name, da_data = g, da_level = level, da_time = steps\<rparr>
      | Stack _ \<Rightarrow> Inl ValueError)"

text \<open>The two \<open>if\<close>/\<open>elif\<close> chains that choose \<open>var_name_new\<close> and scale \<open>data\<close>.\<close>

definition surface_names :: "string list" where
  "surface_names = [''gh'', ''t2m'', ''msl'', ''u10'', ''v10'', ''tp'', ''lsm'']"

definition name_surface :: "string \<Rightarrow> ndarray \<Rightarrow> error + string \<times> ndarray" where
  "name_surface var_name data =
     (if var_name = ''gh'' then Inr (''geopotential_at_surface'', scale_array 9.80665 data)
      else if var_name = ''t2m'' then Inr (''2m_temperature'', data)
      else if var_name = ''msl'' then Inr (''mean_sea_level_pressure'', data)
      else if var_name = ''u10'' then Inr (''10m_u_component_of_wind'', data)
      else if var_name = ''v10'' then Inr (''10m_v_component_of_wind'', data)
      else if var_name = ''tp'' then Inr (''total_precipitation_6hr'', data)
      else if var_name = ''lsm'' then Inr (''land_sea_mask'', data)
      else Inl UnboundLocalError)"

definition name_level :: "string \<Rightarrow> ndarray \<Rightarrow> error + string \<times> ndarray" where
  "name_level var_name data =
     (if var_name = ''z'' then Inr (''geopotential'', scale_array 9.80665 data)
      else if var_name = ''t'' then Inr (''temperature'', data)
      else if var_name = ''q'' then Inr (''specific_humidity'', data)
      else if var_name = ''w'' then Inr (''vertical_velocity'', data)
      else if var_name = ''u'' then Inr (''u_component_of_wind'', data)
      else if var_name = ''v'' then Inr (''v_component_of_wind'', data)
      else Inl UnboundLocalError)"

text \<open>
  The \<open>try\<close> block of \<open>get_dataarray\<close>; \<open>Inr None\<close> is its \<open>return None\<close>. After
  \<open>variable_message = variable_message[0]\<close> the name is bound to the first message
  that matched, here \<open>m\<close>.
\<close>

definition get_dataarray_try ::
  "decoder \<Rightarrow> string \<Rightarrow> string \<Rightarrow> string \<Rightarrow> int \<Rightarrow> error + dataarray option" where
  "get_dataarray_try D grib_file var_name type_of_level level =
     bind (pygrib_open D grib_file) (\<lambda>grbs.
       case select grbs var_name type_of_level level of
         [] \<Rightarrow> Inr None
       | m # _ \<Rightarrow>
           bind (msg_item0 D m) (\<lambda>m0.
             let steps = validDate m0;
                 steps = (if var_name = ''tp'' then steps + 6 else steps)
             in
           bind (msg_len D m) (\<lambda>n.
           bind (if n > 2 then
                   bind (msg_iter D m) (\<lambda>msgs.
                     Inr (Stack (map msg_values (filter (\<lambda>msg. stepType msg = ''instant'') msgs))))
                 else Inr (Grid (msg_values m))) (\<lambda>data.
           bind (if var_name \<in> set surface_names then
                   bind (name_surface var_name data) (\<lambda>(var_name_new, data).
                     make_dataarray data var_name_new None steps)
                 else
                   bind (name_level var_name data) (\<lambda>(var_name_new, data).
                     make_dataarray data var_name_new (Some level) steps)) (\<lambda>da.
           Inr (Some da))))))"

text \<open>\<open>get_dataarray\<close>: any exception of the block is caught and \<open>None\<close> returned.\<close>

definition get_dataarray ::
  "decoder \<Rightarrow> string \<Rightarrow> string \<Rightarrow> string \<Rightarrow> int \<Rightarrow> dataarray option" where
  "get_dataarray D grib_file var_name type_of_level level =
     (case get_dataarray_try D grib_file var_name type_of_level level of
        Inl e \<Rightarrow> None
      | Inr r \<Rightarrow> r)"

subsection \<open>The extraction table and the loop of the \<open>pygrib\<close> path\<close>

text \<open>The value under \<open>'level'\<close> is a number or a list of numbers.\<close>

datatype level_sel = One int | Many "int list"

record pygrib_spec =
  spec_typeOfLevel :: string
  spec_level :: level_sel

type_synonym pygrib_table = "(string \<times> (string \<times> pygrib_spec) list) list"

definition levels_13_pygrib :: "int list" where
  "levels_13_pygrib = [50, 100, 150, 200, 250, 300, 400, 500, 600, 700, 850, 925, 1000]"

definition levels_37_pygrib :: "int list" where
  "levels_37_pygrib = [1, 2, 3, 5, 7, 10, 20, 30, 50, 70, 100, 125, 150, 175, 200, 225, 250, 300,
     350, 400, 450, 500, 550, 600, 650, 700, 750, 775, 800, 825, 850, 875, 900, 925, 950, 975, 1000]"

definition isobaric :: "int list \<Rightarrow> pygrib_spec" where
  "isobaric ls = \<lparr>spec_typeOfLevel = ''isobaricInhPa'', spec_level = Many ls\<rparr>"

definition pygrib_table_13 :: pygrib_table where
  "pygrib_table_13 =
     [(''.pgrb2.0p25.f000'',
        [(''gh'', \<lparr>spec_typeOfLevel = ''surface'', spec_level = One 0\<rparr>),
         (''t2m'', \<lparr>spec_typeOfLevel = ''heightAboveGround'', spec_level = One 2\<rparr>),
         (''msl'', \<lparr>spec_typeOfLevel = ''meanSea'', spec_level = One 0\<rparr>),
         (''u10'', \<lparr>spec_typeOfLevel = ''heightAboveGround'', spec_level = One 10\<rparr>),
         (''v10'', \<lparr>spec_typeOfLevel = ''heightAboveGround'', spec_level = One 10\<rparr>),
         (''z'', isobaric levels_13_pygrib),
         (''t'', isobaric levels_13_pygrib),
         (''q'', isobaric levels_13_pygrib),
         (''w'', isobaric levels_13_pygrib),
         (''u'', isobaric levels_13_pygrib),
         (''v'', isobaric levels_13_pygrib)]),
      (''.pgrb2.0p25.f006'',
        [(''tp'', \<lparr>spec_typeOfLevel = ''surface'', spec_level = One 0\<rparr>),
         (''lsm'', \<lparr>spec_typeOfLevel = ''surface'', spec_level = One 0\<rparr>)])]"

definition isobaric_names :: "string list" where
  "isobaric_names = [''z'', ''t'', ''q'', ''w'', ''u'', ''v'']"

definition pygrib_variables_to_extract :: "nat \<Rightarrow> pygrib_table" where
  "pygrib_variables_to_extract n_levels =
     (let t = pygrib_table_13
      in if n_levels = 37 then
           (let t = fold (\<lambda>var_name. AList.map_entry ''.pgrb2.0p25.f000''
                            (AList.map_entry var_name (\<lambda>d. d\<lparr>spec_level := Many levels_37_pygrib\<rparr>)))
                      isobaric_names t;
                t = AList.update ''.pgrb2b.0p25.f000'' [] t;
                t = fold (\<lambda>var_name. AList.map_entry ''.pgrb2b.0p25.f000''
                            (AList.update var_name (isobaric [125, 175, 225, 775, 825, 875])))
                      isobaric_names t
            in t)
         else t)"

text \<open>The body of \<open>for level in levels\<close>: the array is kept unless it is \<open>None\<close>.\<close>

definition pygrib_level ::
  "decoder \<Rightarrow> string \<Rightarrow> string \<Rightarrow> string \<Rightarrow> int \<Rightarrow> dataarray list \<Rightarrow> dataarray list" where
  "pygrib_level D grib2_file var_name type_of_level level extracted_datasets =
     (case get_dataarray D grib2_file var_name type_of_level level of
        None \<Rightarrow> extracted_datasets
      | Some data_array \<Rightarrow> extracted_datasets @ [data_array])"

text \<open>The body of \<open>for var_name, var_info in variable_data.items()\<close>.\<close>

definition pygrib_variable ::
  "decoder \<Rightarrow> string \<Rightarrow> string \<times> pygrib_spec \<Rightarrow> dataarray list \<Rightarrow> dataarray list" where
  "pygrib_variable D grib2_file item extracted_datasets =
     (let var_name = fst item;
          type_of_level = spec_typeOfLevel (snd item);
          levels = (case spec_level (snd item) of One l \<Rightarrow> [l] | Many ls \<Rightarrow> ls)
      in fold (pygrib_level D grib2_file var_name type_of_level) levels extracted_datasets)"

text \<open>
  The body of \<open>for file_extension, variable_data in variables_to_extract.items()\<close>:
  with no match or several, the message is printed and the loop goes on to the next
  file extension (\<open>continue\<close>).
\<close>

definition pygrib_extension ::
  "decoder \<Rightarrow> world \<Rightarrow> string \<Rightarrow> string \<times> (string \<times> pygrib_spec) list \<Rightarrow>
   dataarray list \<Rightarrow> dataarray list" where
  "pygrib_extension D W subfolder_path item extracted_datasets =
     (let file_extension = fst item;
          variable_data = snd item;
          pattern = path_join subfolder_path (''gdas.t*z'' @ file_extension);
          matching_files = glob W pattern
      in if length matching_files = 1 then
           (let grib2_file = hd matching_files
            in fold (pygrib_variable D grib2_file) variable_data extracted_datasets)
         else extracted_datasets)"

definition pygrib_hour ::
  "decoder \<Rightarrow> world \<Rightarrow> pygrib_table \<Rightarrow> string \<Rightarrow> string \<Rightarrow> dataarray list \<Rightarrow> dataarray list" where
  "pygrib_hour D W t date_folder_path hour extracted_datasets =
     (let subfolder_path = path_join date_folder_path hour
      in if path_exists W subfolder_path then
           fold (pygrib_extension D W subfolder_path) t extracted_datasets
         else extracted_datasets)"

definition pygrib_date_folder ::
  "decoder \<Rightarrow> world \<Rightarrow> pygrib_table \<Rightarrow> string \<Rightarrow> string \<Rightarrow> dataarray list \<Rightarrow> dataarray list" where
  "pygrib_date_folder D W t data_directory date_folder extracted_datasets =
     (let date_folder_path = path_join data_directory date_folder
      in fold (pygrib_hour D W t date_folder_path) [''00'', ''06'', ''12'', ''18''] extracted_datasets)"

text \<open>The statements of \<open>process_data_with_pygrib\<close> after the merge.\<close>

definition pygrib_postprocess :: "dataset \<Rightarrow> error + dataset" where
  "pygrib_postprocess ds = divide_const ''total_precipitation_6hr'' 1000 ds"

definition pygrib_extraction_loop :: "decoder \<Rightarrow> processor \<Rightarrow> world \<Rightarrow> error + dataarray list" where
  "pygrib_extraction_loop D self W =
     (let data_directory = local_base_directory self;
          t = pygrib_variables_to_extract (num_levels self)
      in case walk_dirs W data_directory of
           None \<Rightarrow> Inl StopIteration
         | Some dirnames \<Rightarrow>
             (let date_folders = sort dirnames
              in Inr (fold (pygrib_date_folder D W t data_directory) date_folders [])))"

definition process_data_with_pygrib ::
  "decoder \<Rightarrow> processor \<Rightarrow> world \<Rightarrow> error + job_result" where
  "process_data_with_pygrib D self W =
     bind (pygrib_extraction_loop D self W) (\<lambda>extracted_datasets.
     bind (xr_merge_arrays D extracted_datasets) (\<lambda>ds.
     bind (pygrib_postprocess ds) (\<lambda>ds.
     bind (getitem ds ''time'') (\<lambda>t.
       Inr (save_netcdf (strftime_p D) (getcwd_p D) self W [] ds t)))))"

section \<open>Reference notions used in the statements\<close>




text \<open>The values stored under a name in a dataset, \<open>None\<close> when the name is absent.\<close>

definition values_of :: "dataset \<Rightarrow> string \<Rightarrow> real list option" where
  "values_of ds k = (case getitem ds k of Inl e \<Rightarrow> None | Inr v \<Rightarrow> Some (var_values v))"

text \<open>All arrays of a dataset, data variables and coordinates, with their names.\<close>

definition arrays :: "dataset \<Rightarrow> (string \<times> variable) list" where
  "arrays ds = ds_data_vars ds @ ds_coords ds"



text \<open>
  The flag is set in every \<open>:LAND:\<close> and \<open>:HGT:\<close> entry of a table, and each such
  entry has the one level selector \<open>:surface:\<close>.
\<close>

definition flags_set :: "spec_table \<Rightarrow> bool" where
  "flags_set t = (\<forall>e vd v d. map_of t e = Some vd \<longrightarrow> map_of vd v = Some d \<longrightarrow>
      v = '':LAND:'' \<or> v = '':HGT:'' \<longrightarrow>
      first_time_step_only d = Some True \<and> levels d = ['':surface:''])"




section \<open>Example inputs\<close>

text \<open>
  A merged dataset as the \<open>wgrib2\<close> path hands it to the harmonization: one grid
  point, one pressure level, two time steps (hours 6 and 12).
\<close>

definition surface_field :: "real list \<Rightarrow> variable" where
  "surface_field xs = \<lparr>var_dims = [''time'', ''latitude'', ''longitude''], var_values = xs\<rparr>"

definition level_field :: "real list \<Rightarrow> variable" where
  "level_field xs = \<lparr>var_dims = [''time'', ''plevel'', ''latitude'', ''longitude''], var_values = xs\<rparr>"

definition ex_combined :: dataset where
  "ex_combined =
     \<lparr>ds_dims = [''time'', ''level'', ''plevel'', ''latitude'', ''longitude''],
      ds_coords =
        [(''time'', \<lparr>var_dims = [''time''], var_values = [6, 12]\<rparr>),
         (''plevel'', \<lparr>var_dims = [''plevel''], var_values = [500]\<rparr>),
         (''latitude'', \<lparr>var_dims = [''latitude''], var_values = [0]\<rparr>),
         (''longitude'', \<lparr>var_dims = [''longitude''], var_values = [0]\<rparr>)],
      ds_data_vars =
        [(''HGT_surface'', \<lparr>var_dims = [''latitude'', ''longitude''], var_values = [100]\<rparr>),
         (''LAND_surface'', \<lparr>var_dims = [''latitude'', ''longitude''], var_values = [1]\<rparr>),
         (''PRMSL_meansealevel'', surface_field [101300, 101200]),
         (''TMP_2maboveground'', surface_field [288, 289]),
         (''UGRD_10maboveground'', surface_field [3, 4]),
         (''VGRD_10maboveground'', surface_field [1, 2]),
         (''APCP_surface'', surface_field [0, 2000]),
         (''HGT'', level_field [5000, 5100]),
         (''TMP'', level_field [250, 251]),
         (''SPFH'', level_field [1, 2]),
         (''VVEL'', level_field [0, 1]),
         (''UGRD'', level_field [10, 11]),
         (''VGRD'', level_field [5, 6])]\<rparr>"






text \<open>
  The download directory of one cycle, 2025-07-20 06 UTC, holding one primary file
  for each of the twelve forecast hours.
\<close>

definition ex_base :: string where
  "ex_base = ''noaa-gfs-bdp-pds_13''"

definition ex_subfolder :: string where
  "ex_subfolder = ''noaa-gfs-bdp-pds_13/20250720/06''"

definition ex_glob :: "string list \<Rightarrow> string \<Rightarrow> string list" where
  "ex_glob hours pattern =
     (if pattern \<in> set (map (\<lambda>fh. ex_subfolder @ ''/gdas.t*z.pgrb2.0p25.'' @ fh) hours)
      then [replace pattern ''*'' ''06''] else [])"

definition ex_world :: "string list \<Rightarrow> world" where
  "ex_world hours =
     \<lparr>walk_dirs = (\<lambda>d. if d = ex_base then Some [''20250720''] else None),
      path_exists = (\<lambda>p. p = ex_base \<or> p = ex_subfolder),
      glob = ex_glob hours\<rparr>"

definition ex_self :: "bool \<Rightarrow> processor" where
  "ex_self keep =
     \<lparr>start_datetime = 0, num_levels = 13, output_directory = Some ''out'',
      local_base_directory = ex_base, keep_downloaded_data = keep\<rparr>"

text \<open>
  Stand-ins for the tools of the \<open>wgrib2\<close> path: every command succeeds and gives
  a one-step dataset, \<open>isel\<close> returns its argument, and the merge gives \<open>ex_combined\<close>.
\<close>

definition ex_slice :: dataset where
  "ex_slice =
     \<lparr>ds_dims = [''time'', ''latitude'', ''longitude''],
      ds_coords = [(''time'', \<lparr>var_dims = [''time''], var_values = [6]\<rparr>)],
      ds_data_vars = []\<rparr>"

definition ex_tools :: tools where
  "ex_tools =
     \<lparr>run_wgrib2 = (\<lambda>cmd. Inr ex_slice),
      isel_time0 = (\<lambda>ds. Inr ds),
      combine_by_coords = (\<lambda>dss. Inr ex_combined),
      strftime = (\<lambda>t. ''2025072006''),
      getcwd = ''.''\<rparr>"

text \<open>
  GRIB files for the \<open>pygrib\<close> path: the \<open>f000\<close> file holds the surface
  geopotential height and the height of the 500 hPa level; the \<open>f006\<close> file holds
  two precipitation messages, the averaged one before the instantaneous one, and
  the land-sea mask. All messages of a file are valid at the same hour.
\<close>

definition message :: "string \<Rightarrow> string \<Rightarrow> int \<Rightarrow> int \<Rightarrow> string \<Rightarrow> real list list \<Rightarrow> gribmessage" where
  "message sn tol lv vd st vals =
     \<lparr>shortName = sn, typeOfLevel = tol, msg_level = lv, validDate = vd, stepType = st,
      msg_values = vals\<rparr>"

definition ex_f000 :: "gribmessage list" where
  "ex_f000 =
     [message ''gh'' ''surface'' 0 6 ''instant'' [[100]],
      message ''z'' ''isobaricInhPa'' 500 6 ''instant'' [[5000]]]"

definition ex_f006 :: "gribmessage list" where
  "ex_f006 =
     [message ''tp'' ''surface'' 0 12 ''avg'' [[1000]],
      message ''tp'' ''surface'' 0 12 ''instant'' [[2000]],
      message ''lsm'' ''surface'' 0 12 ''instant'' [[1]]]"

definition ex_files :: "string \<Rightarrow> error + gribmessage list" where
  "ex_files f =
     (if f = ex_subfolder @ ''/gdas.t06z.pgrb2.0p25.f000'' then Inr ex_f000
      else if f = ex_subfolder @ ''/gdas.t06z.pgrb2.0p25.f006'' then Inr ex_f006
      else Inl FileNotFoundError)"

text \<open>
  A stand-in for \<open>xr.merge\<close> that keeps what the statements ask about: the times
  of the arrays become the time coordinate, every array keeps its name and values.
\<close>

definition simple_merge :: "dataarray list \<Rightarrow> error + dataset" where
  "simple_merge das =
     Inr \<lparr>ds_dims = [''time'', ''lat'', ''lon''],
          ds_coords = [(''time'', \<lparr>var_dims = [''time''],
                                   var_values = map real_of_int (remdups (sort (map da_time das)))\<rparr>)],
          ds_data_vars = map (\<lambda>da. (da_name da, \<lparr>var_dims = [''lat'', ''lon''],
                                                   var_values = concat (da_data da)\<rparr>)) das\<rparr>"

text \<open>
  Two decoders. For the first, a single message answers \<open>m[0]\<close> with itself, has
  length 1 and iterates over itself; for the second, a single message supports none
  of the three and the attempt raises \<open>TypeError\<close>.
\<close>

definition lenient_decoder :: decoder where
  "lenient_decoder =
     \<lparr>pygrib_open = ex_files,
      msg_item0 = (\<lambda>m. Inr m),
      msg_len = (\<lambda>m. Inr 1),
      msg_iter = (\<lambda>m. Inr [m]),
      xr_merge_arrays = simple_merge,
      strftime_p = (\<lambda>t. ''2025072006''),
      getcwd_p = ''.''\<rparr>"

definition strict_decoder :: decoder where
  "strict_decoder =
     \<lparr>pygrib_open = ex_files,
      msg_item0 = (\<lambda>m. Inl TypeError),
      msg_len = (\<lambda>m. Inl TypeError),
      msg_iter = (\<lambda>m. Inl TypeError),
      xr_merge_arrays = simple_merge,
      strftime_p = (\<lambda>t. ''2025072006''),
      getcwd_p = ''.''\<rparr>"





text \<open>
  The state of the loop of the \<open>wgrib2\<close> path for the window (f000, f006) of the
  example cycle: at the start, after the visit of \<open>:HGT:\<close>, and after a second
  visit of the same entry.
\<close>

definition ex_hgt_file :: string where
  "ex_hgt_file = '':HGT:_:surface:_20250720_06.pgrb2.0p25.f000_13.nc''"

definition ex_hgt_command :: "string list" where
  "ex_hgt_command =
     [''wgrib2'', ''-nc_nlev'', ''0'', ex_subfolder @ ''/gdas.t06z.pgrb2.0p25.f000'',
      ''-match'', '':HGT:'', ''-match'', '':surface:'', ''-netcdf'', ex_hgt_file]"

definition ex_state0 :: loop_state where
  "ex_state0 =
     \<lparr>st_table = variables_to_extract 13 (pair_hours 0), st_grib2_file = None,
      st_extracted = [], st_files = [], st_commands = []\<rparr>"

definition ex_state1 :: loop_state where
  "ex_state1 =
     \<lparr>st_table = clear_flag ''.pgrb2.0p25.f000'' '':HGT:'' (variables_to_extract 13 (pair_hours 0)),
      st_grib2_file = Some (ex_subfolder @ ''/gdas.t06z.pgrb2.0p25.f000''),
      st_extracted = [ex_slice], st_files = [ex_hgt_file], st_commands = [ex_hgt_command]\<rparr>"

definition ex_state2 :: loop_state where
  "ex_state2 =
     ex_state1\<lparr>st_files := [ex_hgt_file, ex_hgt_file],
               st_commands := [ex_hgt_command, ex_hgt_command]\<rparr>"



section \<open>The file resolver\<close>








section \<open>Cycle pairing\<close>






section \<open>Exceptions and dictionaries\<close>

lemma bind_Inr [simp]: "bind (Inr x) f = f x"
  by (simp add: bind_def)

lemma bind_Inl [simp]: "bind (Inl e) f = Inl e"
  by (simp add: bind_def)

lemma bind_eq_Inr: "bind m f = Inr y \<Longrightarrow> \<exists>x. m = Inr x \<and> f x = Inr y"
  by (cases m) simp_all

lemma getitem_setitem_same: "getitem (setitem ds k v) k = Inr v"
  by (auto simp: getitem_def setitem_def has_key_def update_conv' split: option.splits)

lemma getitem_setitem_other: "k' \<noteq> k \<Longrightarrow> getitem (setitem ds k v) k' = getitem ds k'"
  by (auto simp: getitem_def setitem_def has_key_def update_conv' split: option.splits)

lemma values_of_Some: "values_of ds k = Some xs \<longleftrightarrow> (\<exists>v. getitem ds k = Inr v \<and> var_values v = xs)"
  by (cases "getitem ds k") (auto simp: values_of_def)

lemma values_of_setitem_same: "values_of (setitem ds k v) k = Some (var_values v)"
  by (simp add: values_of_def getitem_setitem_same)

lemma values_of_setitem_other: "k' \<noteq> k \<Longrightarrow> values_of (setitem ds k v) k' = values_of ds k'"
  by (simp add: values_of_def getitem_setitem_other)

lemma values_of_setitem_values:
  "getitem ds k = Inr v0 \<Longrightarrow> var_values v = var_values v0 \<Longrightarrow>
     values_of (setitem ds k v) k' = values_of ds k'"
  by (cases "k' = k") (simp_all add: values_of_setitem_same values_of_setitem_other, simp add: values_of_def)
section \<open>Unit conversions\<close>

lemma times_const_values:
  assumes "times_const k c ds = Inr out"
  shows "\<exists>xs. values_of ds k = Some xs \<and> values_of out k = Some (map (\<lambda>x. x * c) xs)"
    and "k' \<noteq> k \<Longrightarrow> values_of out k' = values_of ds k'"
  using assms
  by (auto simp: times_const_def values_of_def getitem_setitem_same getitem_setitem_other
      dest!: bind_eq_Inr)

lemma divide_const_values:
  assumes "divide_const k c ds = Inr out"
  shows "\<exists>xs. values_of ds k = Some xs \<and> values_of out k = Some (map (\<lambda>x. x / c) xs)"
    and "k' \<noteq> k \<Longrightarrow> values_of out k' = values_of ds k'"
  using assms
  by (auto simp: divide_const_def values_of_def getitem_setitem_same getitem_setitem_other
      dest!: bind_eq_Inr)

lemma convert_units_values:
  assumes "convert_units mid = Inr out"
  shows "\<exists>xs. values_of mid ''geopotential_at_surface'' = Some xs
            \<and> values_of out ''geopotential_at_surface'' = Some (map (\<lambda>x. x * 9.80665) xs)"
    and "\<exists>xs. values_of mid ''geopotential'' = Some xs
            \<and> values_of out ''geopotential'' = Some (map (\<lambda>x. x * 9.80665) xs)"
    and "\<exists>xs. values_of mid ''total_precipitation_6hr'' = Some xs
            \<and> values_of out ''total_precipitation_6hr'' = Some (map (\<lambda>x. x / 1000) xs)"
    and "k \<noteq> ''geopotential_at_surface'' \<Longrightarrow> k \<noteq> ''geopotential'' \<Longrightarrow> k \<noteq> ''total_precipitation_6hr''
           \<Longrightarrow> values_of out k = values_of mid k"
proof -
  from assms obtain d1 d2 where
    s1: "times_const ''geopotential_at_surface'' 9.80665 mid = Inr d1" and
    s2: "times_const ''geopotential'' 9.80665 d1 = Inr d2" and
    s3: "divide_const ''total_precipitation_6hr'' 1000 d2 = Inr out"
    unfolding convert_units_def by (blast dest: bind_eq_Inr)
  note a = times_const_values [OF s1] and b = times_const_values [OF s2] and c = divide_const_values [OF s3]
  show "\<exists>xs. values_of mid ''geopotential_at_surface'' = Some xs
            \<and> values_of out ''geopotential_at_surface'' = Some (map (\<lambda>x. x * 9.80665) xs)"
    using a(1) b(2) [of "''geopotential_at_surface''"] c(2) [of "''geopotential_at_surface''"] by simp
  show "\<exists>xs. values_of mid ''geopotential'' = Some xs
            \<and> values_of out ''geopotential'' = Some (map (\<lambda>x. x * 9.80665) xs)"
    using a(2) [of "''geopotential''"] b(1) c(2) [of "''geopotential''"] by simp
  show "\<exists>xs. values_of mid ''total_precipitation_6hr'' = Some xs
            \<and> values_of out ''total_precipitation_6hr'' = Some (map (\<lambda>x. x / 1000) xs)"
    using a(2) [of "''total_precipitation_6hr''"] b(2) [of "''total_precipitation_6hr''"] c(1) by simp
  show "values_of out k = values_of mid k"
    if "k \<noteq> ''geopotential_at_surface''" "k \<noteq> ''geopotential''" "k \<noteq> ''total_precipitation_6hr''"
    using that a(2) [of k] b(2) [of k] c(2) [of k] by simp
qed

section \<open>Time normalization\<close>

lemma map_of_map_values:
  "map_of (map (\<lambda>(n, v). (n, f v)) l) k = map_option f (map_of l k)"
  by (induction l) auto

lemma astype_values: "astype k ds = Inr ds' \<Longrightarrow> values_of ds' k' = values_of ds k'"
  by (auto simp: astype_def dest!: bind_eq_Inr intro: values_of_setitem_values)

lemma assign_coords_values:
  "k' \<noteq> k \<Longrightarrow> values_of (assign_coords k v ds) k' = values_of ds k'"
  by (simp add: values_of_def getitem_def assign_coords_def update_conv' split: option.splits)

lemma adjust_time_values:
  assumes "adjust_time ds = Inr ds'"
  shows "\<exists>ts. values_of ds ''time'' = Some ts \<and> ts \<noteq> [] \<and>
              values_of ds' ''time'' = Some (map (\<lambda>x. x - hd ts) ts)"
proof -
  from assms obtain t where t: "getitem ds ''time'' = Inr t"
    and r: "(case var_values t of [] \<Rightarrow> Inl IndexError
             | t0 # _ \<Rightarrow> Inr (setitem ds ''time'' (t\<lparr>var_values := map (\<lambda>x. x - t0) (var_values t)\<rparr>))) = Inr ds'"
    unfolding adjust_time_def by (blast dest: bind_eq_Inr)
  from r obtain t0 rest where v: "var_values t = t0 # rest"
    and d: "ds' = setitem ds ''time'' (t\<lparr>var_values := map (\<lambda>x. x - t0) (var_values t)\<rparr>)"
    by (cases "var_values t") auto
  show ?thesis
    using t v d by (simp add: values_of_def getitem_setitem_same)
qed

lemma expand_dims_values: "expand_dims d ds = Inr ds' \<Longrightarrow> values_of ds' k = values_of ds k"
  by (auto simp: expand_dims_def values_of_def getitem_def map_of_map_values
      split: if_splits option.splits)

lemma squeeze_batch_values:
  assumes "squeeze_batch k ds = Inr ds'"
  shows "values_of ds' k' = values_of ds k'"
proof -
  from assms obtain v v' where g: "getitem ds k = Inr v" and s: "squeeze ''batch'' v = Inr v'"
    and d: "ds' = setitem ds k v'"
    unfolding squeeze_batch_def by (auto dest!: bind_eq_Inr)
  from s have "var_values v' = var_values v"
    by (auto simp: squeeze_def split: if_splits)
  with g d show ?thesis
    by (simp add: values_of_setitem_values)
qed

lemma expand_array_values: "expand_array d v = Inr v' \<Longrightarrow> var_values v' = var_values v"
  by (auto simp: expand_array_def split: if_splits)


text \<open>Where an array found after \<open>drop_dims\<close> and \<open>rename\<close> comes from.\<close>

lemma getitem_arrays: "getitem ds k = Inr v \<Longrightarrow> (k, v) \<in> set (arrays ds)"
  by (auto simp: getitem_def arrays_def split: option.splits dest: map_of_SomeD)

lemma drop_dims_arrays: "drop_dims d ds = Inr ds' \<Longrightarrow> set (arrays ds') \<subseteq> set (arrays ds)"
  by (auto simp: drop_dims_def arrays_def split: if_splits)

lemma renamed_time: "renamed name_dict k = ''time'' \<Longrightarrow> k = ''time''"
  by (simp add: renamed_def name_dict_def split: if_splits)

lemma rename_arrays:
  assumes "rename name_dict ds = Inr ds'" "(''time'', v) \<in> set (arrays ds')"
  shows "\<exists>v0. (''time'', v0) \<in> set (arrays ds) \<and> var_values v0 = var_values v"
proof -
  from assms(1) have "arrays ds' = map (rename_array name_dict) (arrays ds)"
    by (auto simp: rename_def arrays_def Let_def split: if_splits)
  with assms(2) obtain k0 v0 where m: "(k0, v0) \<in> set (arrays ds)"
    and e: "rename_array name_dict (k0, v0) = (''time'', v)"
    by auto
  from e have "renamed name_dict k0 = ''time''" and "var_values v = var_values v0"
    by (auto simp: rename_array_def)
  with m renamed_time show ?thesis by auto
qed

lemma prepare_time:
  assumes "prepare ds = Inr mid"
  shows "\<exists>t0. (''time'', t0) \<in> set (arrays ds) \<and> var_values t0 \<noteq> [] \<and>
           values_of mid ''time'' = Some (map (\<lambda>x. x - hd (var_values t0)) (var_values t0))"
proof -
  from assms obtain d1 d2 t d3 d4 d5 d6 d7 d8 dt dt' d9 d10 where
    s1: "drop_dims ''level'' ds = Inr d1" and
    s2: "rename name_dict d1 = Inr d2" and
    s3: "getattr d2 ''time'' = Inr t" and
    s4: "d3 = assign_coords ''datetime'' t d2" and
    s5: "astype ''lat'' d3 = Inr d4" and
    s6: "astype ''lon'' d4 = Inr d5" and
    s7: "astype ''level'' d5 = Inr d6" and
    s8: "adjust_time d6 = Inr d7" and
    s9: "expand_dims ''batch'' d7 = Inr d8" and
    s10: "getitem d8 ''datetime'' = Inr dt" and
    s11: "expand_array ''batch'' dt = Inr dt'" and
    s12: "d9 = setitem d8 ''datetime'' dt'" and
    s13: "squeeze_batch ''geopotential_at_surface'' d9 = Inr d10" and
    s14: "squeeze_batch ''land_sea_mask'' d10 = Inr mid"
    unfolding prepare_def
    by (elim bind_eq_Inr [elim_format] exE conjE) auto
  from adjust_time_values [OF s8] obtain ts where
    ts: "values_of d6 ''time'' = Some ts" "ts \<noteq> []"
        "values_of d7 ''time'' = Some (map (\<lambda>x. x - hd ts) ts)"
    by blast
  have "values_of d6 ''time'' = values_of d2 ''time''"
    using astype_values [OF s7] astype_values [OF s6] astype_values [OF s5] s4
    by (simp add: assign_coords_values)
  with ts obtain v where v: "getitem d2 ''time'' = Inr v" "var_values v = ts"
    by (auto simp: values_of_Some)
  from getitem_arrays [OF v(1)] rename_arrays [OF s2] obtain v1 where
    "(''time'', v1) \<in> set (arrays d1)" "var_values v1 = var_values v"
    by blast
  with drop_dims_arrays [OF s1] v have a: "(''time'', v1) \<in> set (arrays ds)" "var_values v1 = ts"
    by auto
  have "values_of mid ''time'' = values_of d7 ''time''"
    using squeeze_batch_values [OF s14] squeeze_batch_values [OF s13] s12 expand_dims_values [OF s9]
    by (simp add: values_of_setitem_other)
  with ts a show ?thesis by auto
qed

lemma harmonize_time:
  assumes "harmonize ds = Inr out"
  shows "\<exists>t0. (''time'', t0) \<in> set (arrays ds) \<and> var_values t0 \<noteq> [] \<and>
           values_of out ''time'' = Some (map (\<lambda>x. x - hd (var_values t0)) (var_values t0))"
proof -
  from assms obtain mid where p: "prepare ds = Inr mid" and c: "convert_units mid = Inr out"
    unfolding harmonize_def by (blast dest: bind_eq_Inr)
  from convert_units_values(4) [OF c, of "''time''"] have "values_of out ''time'' = values_of mid ''time''"
    by simp
  with prepare_time [OF p] show ?thesis by simp
qed

section \<open>The arrays that \<open>get_dataarray\<close> returns\<close>









section \<open>Claims about units, time and step type\<close>

lemma pygrib_postprocess_values:
  assumes "pygrib_postprocess merged = Inr pout"
  shows "\<exists>p. values_of merged ''total_precipitation_6hr'' = Some p
            \<and> values_of pout ''total_precipitation_6hr'' = Some (map (\<lambda>x. x / 1000) p)"
    and "k \<noteq> ''total_precipitation_6hr'' \<Longrightarrow> values_of pout k = values_of merged k"
  using assms divide_const_values [of "''total_precipitation_6hr''" 1000 merged pout]
  by (simp_all add: pygrib_postprocess_def)



lemma harmonize_time_starts_at_zero:
  assumes "harmonize ds = Inr out"
  shows "\<exists>ts. values_of out ''time'' = Some ts \<and> ts \<noteq> [] \<and> hd ts = 0"
proof -
  from harmonize_time [OF assms] obtain t0 where
    "(''time'', t0) \<in> set (arrays ds)" and
    n: "var_values t0 \<noteq> []" and
    v: "values_of out ''time'' = Some (map (\<lambda>x. x - hd (var_values t0)) (var_values t0))"
    by blast
  from n have "hd (map (\<lambda>x. x - hd (var_values t0)) (var_values t0)) = 0"
    by (cases "var_values t0") simp_all
  with n v show ?thesis by simp
qed

lemma written_save_netcdf [simp]: "written (save_netcdf fmt cwd self W sfx ds t) = ds"
  by (simp add: save_netcdf_def Let_def)

lemma process_data_with_wgrib2_written:
  assumes "process_data_with_wgrib2 T self W fhs = Inr r"
  shows "\<exists>(st :: loop_state) ds.
           combine_by_coords T (st_extracted st) = Inr ds \<and> harmonize ds = Inr (written r)"
proof -
  from assms obtain st :: loop_state and ds out where
    "combine_by_coords T (st_extracted st) = Inr ds" "harmonize ds = Inr out" "written r = out"
    unfolding process_data_with_wgrib2_def Let_def
    by (elim bind_eq_Inr [elim_format] exE conjE) auto
  then show ?thesis by auto
qed

lemma process_data_with_wgrib2_time:
  assumes "process_data_with_wgrib2 T self W fhs = Inr r"
  shows "\<exists>ts. values_of (written r) ''time'' = Some ts \<and> ts \<noteq> [] \<and> hd ts = 0"
  using process_data_with_wgrib2_written [OF assms] harmonize_time_starts_at_zero by blast

lemma process_data_with_pygrib_written:
  assumes "process_data_with_pygrib D self W = Inr r"
  shows "\<exists>extracted merged. xr_merge_arrays D extracted = Inr merged
           \<and> pygrib_postprocess merged = Inr (written r)"
proof -
  from assms obtain extracted merged pout where
    "xr_merge_arrays D extracted = Inr merged" "pygrib_postprocess merged = Inr pout" "written r = pout"
    unfolding process_data_with_pygrib_def
    by (elim bind_eq_Inr [elim_format] exE conjE) auto
  then show ?thesis by auto
qed

lemma process_data_with_pygrib_time:
  assumes "process_data_with_pygrib D self W = Inr r"
  shows "\<exists>extracted merged. xr_merge_arrays D extracted = Inr merged
           \<and> values_of (written r) ''time'' = values_of merged ''time''"
proof -
  from process_data_with_pygrib_written [OF assms] obtain extracted merged where
    m: "xr_merge_arrays D extracted = Inr merged" and q: "pygrib_postprocess merged = Inr (written r)"
    by blast
  from pygrib_postprocess_values(2) [OF q, of "''time''"] m show ?thesis
    by auto
qed


text \<open>
  Claim C7 fails. \<open>get_dataarray\<close> keeps the first message that matches the
  selector, whatever its step type: for the \<open>f006\<close> file of the example, where the
  averaged precipitation message (values 1000) comes before the instantaneous one
  (values 2000), it returns the averaged values with the first decoder, and nothing
  with the second.
\<close>

theorem get_dataarray_takes_first_message:
  "get_dataarray lenient_decoder (ex_subfolder @ ''/gdas.t06z.pgrb2.0p25.f006'') ''tp'' ''surface'' 0 =
     Some \<lparr>da_name = ''total_precipitation_6hr'', da_data = [[1000]], da_level = None, da_time = 18\<rparr>
   \<and> get_dataarray strict_decoder (ex_subfolder @ ''/gdas.t06z.pgrb2.0p25.f006'') ''tp'' ''surface'' 0 = None"
  by code_simp



section \<open>The forecast-pair scheduler\<close>

lemma pair_hours_windows:
  "map pair_hours [0..<6] =
     [[''f000'', ''f006''], [''f001'', ''f007''], [''f002'', ''f008''],
      [''f003'', ''f009''], [''f004'', ''f010''], [''f005'', ''f011'']]"
  by code_simp

lemma walk_dirs_rmtree: "walk_dirs (rmtree d W) d = None"
  by (simp add: rmtree_def inside_def)

lemma extraction_loop_no_directory:
  "walk_dirs W (local_base_directory self) = None \<Longrightarrow> extraction_loop T self W fhs = Inl StopIteration"
  by (simp add: extraction_loop_def Let_def)

lemma process_data_with_wgrib2_no_directory:
  "walk_dirs W (local_base_directory self) = None \<Longrightarrow>
     process_data_with_wgrib2 T self W fhs = Inl StopIteration"
  by (simp add: process_data_with_wgrib2_def Let_def extraction_loop_no_directory)

lemma save_netcdf_removes:
  assumes "\<not> keep_downloaded_data self" "path_exists W (local_base_directory self)"
  shows "walk_dirs (world_after (save_netcdf fmt cwd self W sfx ds t))
           (local_base_directory (self_after (save_netcdf fmt cwd self W sfx ds t))) = None"
  using assms by (simp add: save_netcdf_def Let_def remove_downloaded_data_def walk_dirs_rmtree)

lemma process_data_with_wgrib2_removes:
  assumes "process_data_with_wgrib2 T self W fhs = Inr r"
    "\<not> keep_downloaded_data self" "path_exists W (local_base_directory self)"
  shows "walk_dirs (world_after r) (local_base_directory (self_after r)) = None"
proof -
  from assms(1) obtain sfx ds t where "r = save_netcdf (strftime T) (getcwd T) self W sfx ds t"
    unfolding process_data_with_wgrib2_def Let_def
    by (elim bind_eq_Inr [elim_format] exE conjE) auto
  with save_netcdf_removes [OF assms(2,3)] show ?thesis by simp
qed

text \<open>
  With \<open>keep_downloaded_data\<close> off, the first job removes the download directory,
  and the second call stops at \<open>next(os.walk(...))\<close>.
\<close>

lemma pairs_stop_after_first_job:
  assumes "process_data_with_wgrib2 T self W (Some (pair_hours 0)) = Inr r"
    "\<not> keep_downloaded_data self" "path_exists W (local_base_directory self)"
  shows "process_forecast_pairs_with_wgrib2 T self W = Inl StopIteration"
proof -
  have u: "[0..<6] = 0 # 1 # [2..<6]"
    by (simp add: upt_rec)
  from process_data_with_wgrib2_removes [OF assms]
  have "process_data_with_wgrib2 T (self_after r) (world_after r) (Some (pair_hours 1)) = Inl StopIteration"
    by (rule process_data_with_wgrib2_no_directory)
  with assms(1) show ?thesis
    unfolding process_forecast_pairs_with_wgrib2_def u
    by (simp add: process_pair_def)
qed

text \<open>
  Claim C2. The six windows are the pairs (f000, f006) to (f005, f011)
  (\<open>pair_hours_windows\<close>), and with \<open>keep_downloaded_data\<close> on, the scheduler runs
  the six jobs of the example cycle and each writes its file. With
  \<open>keep_downloaded_data\<close> off, the first job writes its file and removes the
  download directory, and the scheduler ends in \<open>StopIteration\<close> at the second
  window: five of the six windows are never run.
\<close>

theorem pairs_not_all_run:
  "map_sum id (\<lambda>ps. map fst (ps_outputs ps))
       (process_forecast_pairs_with_wgrib2 ex_tools (ex_self True) (ex_world forecast_hours_all)) =
     Inr [''out/source-gdas_date-2025072006_res-0.25_levels-13_steps-2_fh-f000_f006.nc'',
          ''out/source-gdas_date-2025072006_res-0.25_levels-13_steps-2_fh-f001_f007.nc'',
          ''out/source-gdas_date-2025072006_res-0.25_levels-13_steps-2_fh-f002_f008.nc'',
          ''out/source-gdas_date-2025072006_res-0.25_levels-13_steps-2_fh-f003_f009.nc'',
          ''out/source-gdas_date-2025072006_res-0.25_levels-13_steps-2_fh-f004_f010.nc'',
          ''out/source-gdas_date-2025072006_res-0.25_levels-13_steps-2_fh-f005_f011.nc'']
   \<and> map_sum id output_netcdf
       (process_data_with_wgrib2 ex_tools (ex_self False) (ex_world forecast_hours_all) (Some (pair_hours 0))) =
     Inr ''out/source-gdas_date-2025072006_res-0.25_levels-13_steps-2_fh-f000_f006.nc''
   \<and> process_forecast_pairs_with_wgrib2 ex_tools (ex_self False) (ex_world forecast_hours_all) =
     Inl StopIteration"
proof (intro conjI)
  show "map_sum id (\<lambda>ps. map fst (ps_outputs ps))
       (process_forecast_pairs_with_wgrib2 ex_tools (ex_self True) (ex_world forecast_hours_all)) =
     Inr [''out/source-gdas_date-2025072006_res-0.25_levels-13_steps-2_fh-f000_f006.nc'',
          ''out/source-gdas_date-2025072006_res-0.25_levels-13_steps-2_fh-f001_f007.nc'',
          ''out/source-gdas_date-2025072006_res-0.25_levels-13_steps-2_fh-f002_f008.nc'',
          ''out/source-gdas_date-2025072006_res-0.25_levels-13_steps-2_fh-f003_f009.nc'',
          ''out/source-gdas_date-2025072006_res-0.25_levels-13_steps-2_fh-f004_f010.nc'',
          ''out/source-gdas_date-2025072006_res-0.25_levels-13_steps-2_fh-f005_f011.nc'']"
    by code_simp
  show first: "map_sum id output_netcdf
       (process_data_with_wgrib2 ex_tools (ex_self False) (ex_world forecast_hours_all) (Some (pair_hours 0))) =
     Inr ''out/source-gdas_date-2025072006_res-0.25_levels-13_steps-2_fh-f000_f006.nc''"
    by code_simp
  then obtain r where
    "process_data_with_wgrib2 ex_tools (ex_self False) (ex_world forecast_hours_all) (Some (pair_hours 0)) = Inr r"
    by (cases "process_data_with_wgrib2 ex_tools (ex_self False) (ex_world forecast_hours_all) (Some (pair_hours 0))")
      simp_all
  then show "process_forecast_pairs_with_wgrib2 ex_tools (ex_self False) (ex_world forecast_hours_all) =
     Inl StopIteration"
    by (rule pairs_stop_after_first_job) (simp_all add: ex_self_def ex_world_def)
qed

section \<open>Missing or ambiguous source files\<close>







section \<open>The first-time-step flag\<close>

lemma for_each_single: "for_each body [x] s = body x s"
  by (cases "body x s") simp_all

lemma clear_flag_lookup:
  assumes "map_of t file_extension = Some variable_data" "map_of variable_data v = Some data"
  shows "\<exists>variable_data' data'. map_of (clear_flag file_extension v t) file_extension = Some variable_data'
           \<and> map_of variable_data' v = Some data' \<and> first_time_step_only data' = Some False"
  using assms by (simp add: clear_flag_def map_of_map_entry)

lemma extract_level_flag_set:
  assumes "v \<in> set ['':LAND:'', '':HGT:'']"
    "extract_level T self date_folder hour file_extension v True level st = Inr st'"
  shows "\<exists>ds ds'. isel_time0 T ds = Inr ds' \<and> st_extracted st' = st_extracted st @ [ds']"
    and "st_table st' = clear_flag file_extension v (st_table st)"
proof -
  from assms(2) obtain grib2_file where g: "st_grib2_file st = Some grib2_file"
    by (cases "st_grib2_file st") (simp_all add: extract_level_def Let_def)
  from assms g obtain ds ds' where i: "isel_time0 T ds = Inr ds'"
    and x: "st_extracted st' = st_extracted st @ [ds']"
    and y: "st_table st' = clear_flag file_extension v (st_table st)"
    unfolding extract_level_def Let_def
    by (auto dest!: bind_eq_Inr)
  from i x show "\<exists>ds ds'. isel_time0 T ds = Inr ds' \<and> st_extracted st' = st_extracted st @ [ds']"
    by blast
  from y show "st_table st' = clear_flag file_extension v (st_table st)" .
qed

lemma extract_level_flag_clear:
  assumes "v \<in> set ['':LAND:'', '':HGT:'']"
    "extract_level T self date_folder hour file_extension v False level st = Inr st'"
  shows "st_extracted st' = st_extracted st" and "st_table st' = st_table st"
proof -
  from assms(2) obtain grib2_file where g: "st_grib2_file st = Some grib2_file"
    by (cases "st_grib2_file st") (simp_all add: extract_level_def Let_def)
  from assms g show "st_extracted st' = st_extracted st" and "st_table st' = st_table st"
    unfolding extract_level_def Let_def
    by (auto dest!: bind_eq_Inr)
qed

lemma first_bucket_entry_flags:
  "map_of first_bucket_entry v = Some d \<Longrightarrow> v = '':LAND:'' \<or> v = '':HGT:'' \<Longrightarrow>
     first_time_step_only d = Some True \<and> levels d = ['':surface:'']"
  by (auto simp: first_bucket_entry_def pressure_variables_def split: if_splits)

lemma second_bucket_entry_flags:
  "map_of second_bucket_entry v = Some d \<Longrightarrow> v = '':LAND:'' \<or> v = '':HGT:'' \<Longrightarrow>
     first_time_step_only d = Some True \<and> levels d = ['':surface:'']"
  by (auto simp: second_bucket_entry_def split: if_splits)

lemma flags_set_update:
  assumes "flags_set t"
    "\<And>v d. map_of vd v = Some d \<Longrightarrow> v = '':LAND:'' \<or> v = '':HGT:'' \<Longrightarrow>
       first_time_step_only d = Some True \<and> levels d = ['':surface:'']"
  shows "flags_set (AList.update e vd t)"
  using assms unfolding flags_set_def update_conv' by (auto split: if_splits)

lemma flags_set_add_buckets: "flags_set t \<Longrightarrow> flags_set (add_buckets fhs t)"
proof (induction fhs arbitrary: t)
  case Nil
  then show ?case by simp
next
  case (Cons fh fhs)
  show ?case
    unfolding add_buckets.simps
    by (rule Cons.IH)
      (auto intro!: flags_set_update Cons.prems dest: first_bucket_entry_flags second_bucket_entry_flags)
qed

lemma pressure_variables_not_flagged:
  "pressure_variables \<noteq> '':LAND:''" "pressure_variables \<noteq> '':HGT:''"
  by (simp_all add: pressure_variables_def)

lemma map_of_map_entry_other: "v \<noteq> k \<Longrightarrow> map_of (AList.map_entry k f vd) v = map_of vd v"
  by (simp add: map_of_map_entry)

lemma flags_set_new_levels:
  assumes "flags_set t"
  shows "flags_set (AList.map_entry e (AList.map_entry pressure_variables (\<lambda>d. d\<lparr>levels := ls\<rparr>)) t)"
  unfolding flags_set_def
proof (intro allI impI)
  fix e' vd' v d
  assume 1: "map_of (AList.map_entry e (AList.map_entry pressure_variables (\<lambda>d. d\<lparr>levels := ls\<rparr>)) t) e' = Some vd'"
    and 2: "map_of vd' v = Some d" and 3: "v = '':LAND:'' \<or> v = '':HGT:''"
  from 3 pressure_variables_not_flagged have n: "v \<noteq> pressure_variables" by auto
  from 1 obtain vd where t: "map_of t e' = Some vd"
    and "vd' = vd \<or> vd' = AList.map_entry pressure_variables (\<lambda>d. d\<lparr>levels := ls\<rparr>) vd"
    by (auto simp: map_of_map_entry split: if_splits option.splits)
  with 2 n have "map_of vd v = Some d"
    by (auto simp: map_of_map_entry_other)
  with assms t 3 show "first_time_step_only d = Some True \<and> levels d = ['':surface:'']"
    unfolding flags_set_def by blast
qed

lemma flags_set_add_37_levels: "flags_set t \<Longrightarrow> flags_set (add_37_levels fhs t)"
proof (induction fhs arbitrary: t)
  case Nil
  then show ?case by simp
next
  case (Cons fh fhs)
  have "flags_set (AList.update e [(pressure_variables, \<lparr>levels = levels_b, first_time_step_only = None\<rparr>)]
          (AList.update e [] (AList.map_entry e'
             (AList.map_entry pressure_variables (\<lambda>d. d\<lparr>levels := levels_37\<rparr>)) t)))" for e e'
    using pressure_variables_not_flagged
    by (intro flags_set_update flags_set_new_levels Cons.prems) (auto split: if_splits)
  then show ?case
    unfolding add_37_levels.simps Let_def
    by (auto intro!: Cons.IH Cons.prems)
qed

lemma flags_set_variables_to_extract: "flags_set (variables_to_extract n fhs)"
proof -
  have "flags_set []" by (simp add: flags_set_def)
  then show ?thesis
    unfolding variables_to_extract_def Let_def
    by (auto intro: flags_set_add_buckets flags_set_add_37_levels)
qed

text \<open>
  Claim C6, as stated, fails: the consumption is recorded in the extraction table
  itself. For the example cycle and the window (f000, f006), the table that the job
  builds has the flag set for \<open>:HGT:\<close> and \<open>:LAND:\<close>, and the table at the end of
  the loop has it cleared for both.
\<close>

theorem flag_is_cleared_in_table:
  "map (\<lambda>(e, vd). (e, map (\<lambda>(v, d). (v, first_time_step_only d)) vd))
       (variables_to_extract 13 (pair_hours 0)) =
     [(''.pgrb2.0p25.f000'',
        [('':HGT:'', Some True), ('':TMP:'', None), ('':PRMSL:'', None), ('':VGRD|UGRD:'', None),
         ('':SPFH|VVEL|VGRD|UGRD|HGT|TMP:'', None)]),
      (''.pgrb2.0p25.f006'', [('':LAND:'', Some True), (''^(597):'', None)])]
   \<and> map_sum id (\<lambda>st. map (\<lambda>(e, vd). (e, map (\<lambda>(v, d). (v, first_time_step_only d)) vd)) (st_table st))
       (extraction_loop ex_tools (ex_self True) (ex_world forecast_hours_all) (pair_hours 0)) =
     Inr [(''.pgrb2.0p25.f000'',
        [('':HGT:'', Some False), ('':TMP:'', None), ('':PRMSL:'', None), ('':VGRD|UGRD:'', None),
         ('':SPFH|VVEL|VGRD|UGRD|HGT|TMP:'', None)]),
      (''.pgrb2.0p25.f006'', [('':LAND:'', Some False), (''^(597):'', None)])]"
  by code_simp

lemma extract_variable_flag:
  assumes v: "v \<in> set ['':LAND:'', '':HGT:'']"
    and a1: "map_of (st_table st) file_extension = Some variable_data"
    and a2: "map_of variable_data v = Some data" and a3: "levels data = [level]"
    and a4: "extract_variable T W self subfolder_path date_folder hour file_extension v st = Inr st'"
  shows "first_time_step_only data = Some True \<Longrightarrow>
           (\<exists>ds ds'. isel_time0 T ds = Inr ds' \<and> st_extracted st' = st_extracted st @ [ds'])
           \<and> (\<exists>variable_data' data'. map_of (st_table st') file_extension = Some variable_data'
                 \<and> map_of variable_data' v = Some data' \<and> first_time_step_only data' = Some False)"
    and "first_time_step_only data \<noteq> Some True \<Longrightarrow>
           st_extracted st' = st_extracted st \<and> st_table st' = st_table st"
proof -
  define flag where "flag = (case first_time_step_only data of None \<Rightarrow> False | Some b \<Rightarrow> b)"
  define st0 where "st0 = (if length (glob W (path_join subfolder_path (''gdas.t*z'' @ file_extension))) = 1
       then st\<lparr>st_grib2_file := Some (hd (glob W (path_join subfolder_path (''gdas.t*z'' @ file_extension))))\<rparr>
       else st)"
  have s0: "st_extracted st0 = st_extracted st" "st_table st0 = st_table st"
    by (simp_all add: st0_def)
  from a4 have e: "extract_level T self date_folder hour file_extension v flag level st0 = Inr st'"
    unfolding extract_variable_def a1 a2 a3 option.case Let_def for_each_single flag_def st0_def .
  show "(\<exists>ds ds'. isel_time0 T ds = Inr ds' \<and> st_extracted st' = st_extracted st @ [ds'])
           \<and> (\<exists>variable_data' data'. map_of (st_table st') file_extension = Some variable_data'
                 \<and> map_of variable_data' v = Some data' \<and> first_time_step_only data' = Some False)"
    if "first_time_step_only data = Some True"
  proof -
    from that have "flag" by (simp add: flag_def)
    with e have e': "extract_level T self date_folder hour file_extension v True level st0 = Inr st'"
      by simp
    from extract_level_flag_set(1) [OF v e'] s0
    have 1: "\<exists>ds ds'. isel_time0 T ds = Inr ds' \<and> st_extracted st' = st_extracted st @ [ds']"
      by simp
    from extract_level_flag_set(2) [OF v e'] clear_flag_lookup [OF a1 a2] s0
    have 2: "\<exists>variable_data' data'. map_of (st_table st') file_extension = Some variable_data'
              \<and> map_of variable_data' v = Some data' \<and> first_time_step_only data' = Some False"
      by simp
    from 1 2 show ?thesis by (rule conjI)
  qed
  show "st_extracted st' = st_extracted st \<and> st_table st' = st_table st"
    if "first_time_step_only data \<noteq> Some True"
  proof -
    from that have "\<not> flag" by (cases "first_time_step_only data") (auto simp: flag_def)
    with e have e': "extract_level T self date_folder hour file_extension v False level st0 = Inr st'"
      by simp
    from extract_level_flag_clear [OF v e'] s0 show ?thesis
      by simp
  qed
qed

text \<open>
  Claim C6, amended. For a variable entry \<open>:LAND:\<close> or \<open>:HGT:\<close> with its one level
  selector: when the entry's flag is set, a successful visit appends exactly one
  dataset, the one cut to its first time step, and clears the flag in the job's own
  table; when the flag is not set, a successful visit appends nothing and leaves
  the table as it is. So within a job the cut is made at most once per entry. The
  table is built anew at the start of every job, from the number of levels and the
  forecast hours alone, and in a table so built the flag is set in every
  \<open>:LAND:\<close> and \<open>:HGT:\<close> entry.
\<close>

theorem first_time_step_once:
  "((v = '':LAND:'' \<or> v = '':HGT:'') \<and> map_of (st_table st) file_extension = Some variable_data
     \<and> map_of variable_data v = Some data \<and> levels data = [level]
     \<and> extract_variable T W self subfolder_path date_folder hour file_extension v st = Inr st'
   \<longrightarrow>
     (first_time_step_only data = Some True \<longrightarrow>
        (\<exists>ds ds'. isel_time0 T ds = Inr ds' \<and> st_extracted st' = st_extracted st @ [ds'])
        \<and> (\<exists>variable_data' data'. map_of (st_table st') file_extension = Some variable_data'
              \<and> map_of variable_data' v = Some data' \<and> first_time_step_only data' = Some False))
     \<and> (first_time_step_only data \<noteq> Some True \<longrightarrow>
          st_extracted st' = st_extracted st \<and> st_table st' = st_table st))
   \<and> flags_set (variables_to_extract n fhs)"
proof (rule conjI)
  show "flags_set (variables_to_extract n fhs)"
    by (rule flags_set_variables_to_extract)
  show "(v = '':LAND:'' \<or> v = '':HGT:'') \<and> map_of (st_table st) file_extension = Some variable_data
     \<and> map_of variable_data v = Some data \<and> levels data = [level]
     \<and> extract_variable T W self subfolder_path date_folder hour file_extension v st = Inr st'
   \<longrightarrow>
     (first_time_step_only data = Some True \<longrightarrow>
        (\<exists>ds ds'. isel_time0 T ds = Inr ds' \<and> st_extracted st' = st_extracted st @ [ds'])
        \<and> (\<exists>variable_data' data'. map_of (st_table st') file_extension = Some variable_data'
              \<and> map_of variable_data' v = Some data' \<and> first_time_step_only data' = Some False))
     \<and> (first_time_step_only data \<noteq> Some True \<longrightarrow>
          st_extracted st' = st_extracted st \<and> st_table st' = st_table st)"
  proof (intro impI)
    assume a: "(v = '':LAND:'' \<or> v = '':HGT:'') \<and> map_of (st_table st) file_extension = Some variable_data
     \<and> map_of variable_data v = Some data \<and> levels data = [level]
     \<and> extract_variable T W self subfolder_path date_folder hour file_extension v st = Inr st'"
    then have v: "v \<in> set ['':LAND:'', '':HGT:'']"
      and a1: "map_of (st_table st) file_extension = Some variable_data"
      and a2: "map_of variable_data v = Some data" and a3: "levels data = [level]"
      and a4: "extract_variable T W self subfolder_path date_folder hour file_extension v st = Inr st'"
      by auto
    from extract_variable_flag [OF v a1 a2 a3 a4]
    show "(first_time_step_only data = Some True \<longrightarrow>
        (\<exists>ds ds'. isel_time0 T ds = Inr ds' \<and> st_extracted st' = st_extracted st @ [ds'])
        \<and> (\<exists>variable_data' data'. map_of (st_table st') file_extension = Some variable_data'
              \<and> map_of variable_data' v = Some data' \<and> first_time_step_only data' = Some False))
     \<and> (first_time_step_only data \<noteq> Some True \<longrightarrow>
          st_extracted st' = st_extracted st \<and> st_table st' = st_table st)"
      by blast
  qed
qed

theorem first_time_step_once_witness:
  "extract_variable ex_tools (ex_world forecast_hours_all) (ex_self True) ex_subfolder ''20250720'' ''06''
      ''.pgrb2.0p25.f000'' '':HGT:'' ex_state0 = Inr ex_state1
   \<and> st_extracted ex_state1 = st_extracted ex_state0 @ [ex_slice]
   \<and> map_option (map_option first_time_step_only)
        (map_option (\<lambda>vd. map_of vd '':HGT:'') (map_of (st_table ex_state1) ''.pgrb2.0p25.f000''))
       = Some (Some (Some False))
   \<and> extract_variable ex_tools (ex_world forecast_hours_all) (ex_self True) ex_subfolder ''20250720'' ''06''
      ''.pgrb2.0p25.f000'' '':HGT:'' ex_state1 = Inr ex_state2
   \<and> st_extracted ex_state2 = st_extracted ex_state1
   \<and> st_table ex_state2 = st_table ex_state1"
proof -
  let ?W = "ex_world forecast_hours_all"
  let ?hgt = "\<lparr>levels = ['':surface:''], first_time_step_only = Some True\<rparr>"
  let ?hgt' = "\<lparr>levels = ['':surface:''], first_time_step_only = Some False\<rparr>"
  have s1: "extract_variable ex_tools ?W (ex_self True) ex_subfolder ''20250720'' ''06''
      ''.pgrb2.0p25.f000'' '':HGT:'' ex_state0 = Inr ex_state1"
    by code_simp
  have s2: "extract_variable ex_tools ?W (ex_self True) ex_subfolder ''20250720'' ''06''
      ''.pgrb2.0p25.f000'' '':HGT:'' ex_state1 = Inr ex_state2"
    by code_simp
  have t0: "map_of (st_table ex_state0) ''.pgrb2.0p25.f000'' = Some first_bucket_entry"
    by code_simp
  have d0: "map_of first_bucket_entry '':HGT:'' = Some ?hgt"
    by code_simp
  have t1: "map_of (st_table ex_state1) ''.pgrb2.0p25.f000''
       = Some (AList.map_entry '':HGT:'' (\<lambda>d. d\<lparr>first_time_step_only := Some False\<rparr>) first_bucket_entry)"
    by code_simp
  have d1: "map_of (AList.map_entry '':HGT:'' (\<lambda>d. d\<lparr>first_time_step_only := Some False\<rparr>) first_bucket_entry)
       '':HGT:'' = Some ?hgt'"
    by code_simp
  have i: "isel_time0 ex_tools ds = Inr ds" for ds
    by (simp add: ex_tools_def)
  note a = first_time_step_once [of "'':HGT:''" ex_state0 "''.pgrb2.0p25.f000''" first_bucket_entry ?hgt
      "'':surface:''" ex_tools ?W "ex_self True" ex_subfolder "''20250720''" "''06''" ex_state1 13 "pair_hours 0"]
  note b = first_time_step_once [of "'':HGT:''" ex_state1 "''.pgrb2.0p25.f000''"
      "AList.map_entry '':HGT:'' (\<lambda>d. d\<lparr>first_time_step_only := Some False\<rparr>) first_bucket_entry" ?hgt'
      "'':surface:''" ex_tools ?W "ex_self True" ex_subfolder "''20250720''" "''06''" ex_state2 13 "pair_hours 0"]
  from a s1 t0 d0 have "\<exists>ds ds'. isel_time0 ex_tools ds = Inr ds'
        \<and> st_extracted ex_state1 = st_extracted ex_state0 @ [ds']"
    by simp
  then have 1: "st_extracted ex_state1 = st_extracted ex_state0 @ [ex_slice]"
    by (simp add: i ex_state1_def ex_state0_def)
  from a s1 t0 d0 have "\<exists>variable_data' data'. map_of (st_table ex_state1) ''.pgrb2.0p25.f000'' = Some variable_data'
        \<and> map_of variable_data' '':HGT:'' = Some data' \<and> first_time_step_only data' = Some False"
    by simp
  then have 2: "map_option (map_option first_time_step_only)
        (map_option (\<lambda>vd. map_of vd '':HGT:'') (map_of (st_table ex_state1) ''.pgrb2.0p25.f000''))
       = Some (Some (Some False))"
    by auto
  from b s2 t1 d1 have 3: "st_extracted ex_state2 = st_extracted ex_state1 \<and> st_table ex_state2 = st_table ex_state1"
    by simp
  from s1 1 2 s2 3 show ?thesis by blast
qed

section \<open>The order of the time axis\<close>







end
